theory Spec2Isabelle
  imports Complex_Main "HOL-Library.Sublist" "HOL-Library.Log_Nat"
begin

section \<open>EcoWaste-AI: the label-to-disposal classifier, the retry wrapper and the history list\<close>

text \<open>
  A shallow embedding of \<^verbatim>\<open>src/components/Scan_or_Upload/Part2.tsx\<close>:
  \<^verbatim>\<open>getWasteDetails\<close> (the classifier), \<^verbatim>\<open>retryFetch\<close> (the retry wrapper around
  \<^verbatim>\<open>fetch\<close>) and the history update of \<^verbatim>\<open>runInference\<close>.

  Conventions of the model.
  \<^item> A JavaScript string is a \<^typ>\<open>string\<close> whose characters are UTF-16 code units below 256
    (the Latin-1 range, which contains every keyword of the tables); on that range
    \<^verbatim>\<open>toLowerCase\<close>, \<^verbatim>\<open>trim\<close> and \<^verbatim>\<open>includes\<close> are modelled exactly.
  \<^item> A JavaScript number is the \<^typ>\<open>rat\<close> that a finite IEEE binary64 value denotes, and
    \<^verbatim>\<open>+\<close> is the exact sum rounded to the nearest binary64 value, ties to even. A decimal
    literal of the source or of an input (\<^verbatim>\<open>0.1\<close>, \<^verbatim>\<open>0.2\<close>) is the binary64 value nearest
    to it. The two zeros are one value, which \<^verbatim>\<open>+\<close> and \<^verbatim>\<open>>\<close> cannot tell apart. Sums that
    leave the finite range (\<^verbatim>\<open>Infinity\<close>, \<^verbatim>\<open>NaN\<close>) are not modelled: they need scores of
    magnitude above \<^verbatim>\<open>1e306\<close>, where the specification has scores between 0 and 1.
  \<^item> An optional field (\<^verbatim>\<open>special?\<close>, \<^verbatim>\<open>compostable?\<close>) is an \<^typ>\<open>bool option\<close>,
    \<^term>\<open>None\<close> when the object literal does not mention it.
\<close>

subsection \<open>Types\<close>

record HFPrediction =
  label :: string
  score :: rat

record WasteDetail =
  type :: string
  recyclable :: bool
  "note" :: string
  special :: "bool option"
  compostable :: "bool option"

record ClassificationResult = WasteDetail +
  rawLabel :: string

record HistoryItem = ClassificationResult +
  imageSrc :: string
  timestamp :: nat

datatype WasteCategoryKey =
  PlasticFilm | Metal | RigidPlastic | Paper | Glass | Cardboard | FoodOrganics

subsection \<open>Numbers\<close>

definition pow2 :: "int \<Rightarrow> rat" where
  "pow2 e = (if 0 \<le> e then 2 ^ nat e else 1 / 2 ^ nat (- e))"

text \<open>The \<open>e\<close> with \<open>pow2 e \<le> \<bar>x\<bar> < pow2 (e + 1)\<close>, for \<open>x \<noteq> 0\<close>.\<close>

definition binaryExponent :: "rat \<Rightarrow> int" where
  "binaryExponent x =
     (let (p, q) = quotient_of \<bar>x\<bar>;
          d = bitlen p - bitlen q
      in if pow2 d \<le> \<bar>x\<bar> then d else d - 1)"

definition roundHalfEven :: "rat \<Rightarrow> int" where
  "roundHalfEven m =
     (let f = \<lfloor>m\<rfloor>; r = m - of_int f
      in if r < 1 / 2 then f else if 1 / 2 < r then f + 1 else if even f then f else f + 1)"

text \<open>
  The binary64 value nearest to \<open>x\<close>, ties to even: 53 significant bits, and below
  \<open>pow2 (- 1022)\<close> the fixed spacing \<open>pow2 (- 1074)\<close> of the subnormal values.
\<close>

definition double_of :: "rat \<Rightarrow> rat" where
  "double_of x =
     (if x = 0 then 0
      else let e = max (binaryExponent x) (- 1022);
               ulp = pow2 (e - 52)
           in of_int (roundHalfEven (x / ulp)) * ulp)"

text \<open>\<^verbatim>\<open>a + b\<close> on numbers.\<close>

definition jsAdd :: "rat \<Rightarrow> rat \<Rightarrow> rat" where
  "jsAdd a b = double_of (a + b)"

subsection \<open>String primitives\<close>

definition toLowerChar :: "char \<Rightarrow> char" where
  "toLowerChar c =
     (let n = (of_char c :: nat)
      in if (65 \<le> n \<and> n \<le> 90) \<or> (192 \<le> n \<and> n \<le> 222 \<and> n \<noteq> 215)
         then char_of (n + 32) else c)"

definition toLowerCase :: "string \<Rightarrow> string" where
  "toLowerCase s = map toLowerChar s"

definition isWhiteSpace :: "char \<Rightarrow> bool" where
  "isWhiteSpace c = ((of_char c :: nat) \<in> {9, 10, 11, 12, 13, 32, 160})"

definition trim :: "string \<Rightarrow> string" where
  "trim s = rev (dropWhile isWhiteSpace (rev (dropWhile isWhiteSpace s)))"

text \<open>\<^verbatim>\<open>s.includes(k)\<close>: \<open>k\<close> occurs in \<open>s\<close> as a contiguous substring.\<close>

fun includesStr :: "string \<Rightarrow> string \<Rightarrow> bool" where
  "includesStr [] k = (k = [])"
| "includesStr (c # s) k = (prefix k (c # s) \<or> includesStr s k)"

subsection \<open>The static tables\<close>

definition KEYWORD_SCORES :: "(WasteCategoryKey \<times> string list) list" where
  "KEYWORD_SCORES =
    [(PlasticFilm, [''plastic bag'', ''film'', ''wrapping'', ''wrap'', ''grocery bag'',
        ''carrier bag'', ''plastic sheet'', ''polyethylene'', ''shopping bag'', ''clear plastic'']),
     (Metal, [''metal'', ''steel'', ''aluminum'', ''aluminium'', ''tin'', ''can'', ''foil'',
        ''beverage can'', ''utensil'', ''cutlery'', ''silverware'', ''cookware'']),
     (RigidPlastic, [''bottle'', ''container'', ''jug'', ''rigid plastic'', ''tub'',
        ''pet bottle'', ''plastic bottle'']),
     (Paper, [''paper'', ''book'', ''magazine'', ''newspaper'', ''flyer'', ''printed paper'',
        ''notebook'']),
     (Glass, [''glass'', ''jar'', ''shattered'', ''cup'', ''tumbler'', ''cut glass'', ''bottle'',
        ''window'']),
     (Cardboard, [''box'', ''cardboard'', ''carton'', ''packaging'', ''paperboard'',
        ''corrugated'']),
     (FoodOrganics, [''banana'', ''apple'', ''orange'', ''pizza slice'', ''leaf'', ''log'',
        ''food'', ''fruit'', ''vegetable'', ''compost'', ''peel''])]"

definition rigid_plastic_default :: WasteDetail where
  "rigid_plastic_default =
     \<lparr>type = ''Plastic (Rigid)'', recyclable = True,
      note = ''Empty, rinse, and replace the cap. This is rigid plastic.'',
      special = None, compostable = None\<rparr>"

definition metal_default :: WasteDetail where
  "metal_default =
     \<lparr>type = ''Metal'', recyclable = True, note = ''Rinse well and flatten if possible.'',
      special = None, compostable = None\<rparr>"

definition glass_default :: WasteDetail where
  "glass_default =
     \<lparr>type = ''Glass'', recyclable = True,
      note = ''Empty and rinse well. **Intact** glass containers are recyclable.'',
      special = None, compostable = None\<rparr>"

definition cardboard_default :: WasteDetail where
  "cardboard_default =
     \<lparr>type = ''Cardboard'', recyclable = True,
      note = ''Must be flattened and dry. Remove all tape.'',
      special = None, compostable = None\<rparr>"

definition paper_default :: WasteDetail where
  "paper_default =
     \<lparr>type = ''Paper'', recyclable = True,
      note = ''Recyclable. Books, newspapers, and office paper should be clean and dry.'',
      special = None, compostable = None\<rparr>"

definition plastic_film_trash :: WasteDetail where
  "plastic_film_trash =
     \<lparr>type = ''Miscellaneous Trash'', recyclable = False,
      note = ''Plastic film/bags are NOT curbside recyclable. Use store drop-off or trash.'',
      special = None, compostable = None\<rparr>"

definition broken_glass_special :: WasteDetail where
  "broken_glass_special =
     \<lparr>type = ''Miscellaneous Trash'', recyclable = False,
      note = ''DANGER: Broken or shattered glass is NOT recyclable curbside due to safety. **Throw it in the trash** only after safely wrapping the pieces in thick newspaper or a small box.'',
      special = Some True, compostable = None\<rparr>"

definition organic_compost :: WasteDetail where
  "organic_compost =
     \<lparr>type = ''Food Organics'', recyclable = False, note = ''Compostable/Green Bin waste.'',
      special = None, compostable = Some True\<rparr>"

definition UNKNOWN_FALLBACK :: WasteDetail where
  "UNKNOWN_FALLBACK =
     \<lparr>type = ''Miscellaneous Trash'', recyclable = False,
      note = ''Item not in the specific waste map. Defaulting to Miscellaneous Trash.'',
      special = Some False, compostable = Some False\<rparr>"

definition WASTE_MAP :: "(string \<times> WasteDetail) list" where
  "WASTE_MAP =
    [(''rigid_plastic_default'', rigid_plastic_default),
     (''metal_default'', metal_default),
     (''glass_default'', glass_default),
     (''cardboard_default'', cardboard_default),
     (''paper_default'', paper_default),
     (''plastic_film_trash'', plastic_film_trash),
     (''broken_glass_special'', broken_glass_special),
     (''organic_compost'', organic_compost),
     (''UNKNOWN_FALLBACK'', UNKNOWN_FALLBACK)]"

subsection \<open>Ways in which the classifier could fail to produce a verdict\<close>

text \<open>
  \<^item> \<open>TypeError\<close>: reading \<^verbatim>\<open>.label\<close> of \<^verbatim>\<open>predictions[0]\<close> when there is no first element;
  \<^item> \<open>MissingProfile\<close>: spreading \<^verbatim>\<open>WASTE_MAP[key]\<close> for a key the table does not have, which
    leaves \<^verbatim>\<open>type\<close>, \<^verbatim>\<open>recyclable\<close> and \<^verbatim>\<open>note\<close> undefined, so the object is not a verdict.
\<close>

datatype js_failure = TypeError | MissingProfile

text \<open>The fields that \<^verbatim>\<open>{ rawLabel: l, ...d }\<close> has for a table entry \<open>d\<close>.\<close>

definition withRawLabel :: "string \<Rightarrow> WasteDetail \<Rightarrow> ClassificationResult" where
  "withRawLabel l d =
     \<lparr>type = type d, recyclable = recyclable d, note = note d, special = special d,
      compostable = compostable d, rawLabel = l\<rparr>"

text \<open>\<^verbatim>\<open>{ rawLabel: l, ...WASTE_MAP[key] }\<close>\<close>

definition spreadProfile :: "string \<Rightarrow> string \<Rightarrow> js_failure + ClassificationResult" where
  "spreadProfile l key =
     (case map_of WASTE_MAP key of
        None \<Rightarrow> Inl MissingProfile
      | Some d \<Rightarrow> Inr (withRawLabel l d))"

text \<open>\<^verbatim>\<open>{ rawLabel: l, ...WASTE_MAP[key], note: n }\<close>\<close>

definition spreadProfileNote :: "string \<Rightarrow> string \<Rightarrow> string \<Rightarrow> js_failure + ClassificationResult" where
  "spreadProfileNote l key n =
     (case map_of WASTE_MAP key of
        None \<Rightarrow> Inl MissingProfile
      | Some d \<Rightarrow> Inr ((withRawLabel l d)\<lparr>note := n\<rparr>))"

subsection \<open>Keyword-weighted voting\<close>

text \<open>
  \<^verbatim>\<open>categoryScores\<close> has all seven keys from its literal on, so it is a total function on
  the keys together with the order in which \<^verbatim>\<open>for (const category in categoryScores)\<close>
  visits them, which is the order of the literal.
\<close>

type_synonym scores = "WasteCategoryKey \<Rightarrow> rat"

definition categoryScores_init :: scores where
  "categoryScores_init = (\<lambda>_. 0)"

definition categoryScores_keys :: "WasteCategoryKey list" where
  "categoryScores_keys = [PlasticFilm, RigidPlastic, Metal, Glass, Cardboard, Paper, FoodOrganics]"

text \<open>The inner \<^verbatim>\<open>KEYWORD_SCORES[key].forEach\<close> for one category.\<close>

definition scoreKeywords :: "string \<Rightarrow> rat \<Rightarrow> WasteCategoryKey \<Rightarrow> string list \<Rightarrow> scores \<Rightarrow> scores" where
  "scoreKeywords cleanLabel weight key keywords sc =
     fold (\<lambda>keyword s.
             if includesStr cleanLabel keyword
             then s(key := jsAdd (s key) (jsAdd weight (double_of (1 / 10))))
             else s)
          keywords sc"

text \<open>The body of \<^verbatim>\<open>predictions.slice(0, 5).forEach\<close> for one prediction.\<close>

definition scorePrediction :: "HFPrediction \<Rightarrow> scores \<Rightarrow> scores" where
  "scorePrediction p sc =
     (let cleanLabel = trim (toLowerCase (label p));
          weight = score p
      in fold (\<lambda>(key, keywords) s. scoreKeywords cleanLabel weight key keywords s)
              KEYWORD_SCORES sc)"

definition accumulate :: "HFPrediction list \<Rightarrow> scores" where
  "accumulate predictions = fold scorePrediction (take 5 predictions) categoryScores_init"

text \<open>
  One iteration of the winner loop; the state is \<^verbatim>\<open>(winningCategory, maxScore)\<close>. The
  literal \<^verbatim>\<open>0.3\<close> is the binary64 value just below \<open>3 / 10\<close>, and the next binary64 value is
  above \<open>3 / 10\<close> (lemma \<open>threshold_between_doubles\<close>), so on binary64 values
  \<^verbatim>\<open>categoryScores[key] > 0.3\<close> is the comparison with \<open>3 / 10\<close>.
\<close>

definition winnerStep ::
  "scores \<Rightarrow> WasteCategoryKey \<Rightarrow> WasteCategoryKey option \<times> rat \<Rightarrow> WasteCategoryKey option \<times> rat" where
  "winnerStep sc key st =
     (if sc key > snd st \<and> sc key > 3 / 10 then (Some key, sc key) else st)"

definition winnerLoop :: "scores \<Rightarrow> WasteCategoryKey list \<Rightarrow> WasteCategoryKey option \<times> rat" where
  "winnerLoop sc keys = fold (winnerStep sc) keys (None, 0)"

definition winningCategory :: "scores \<Rightarrow> WasteCategoryKey option" where
  "winningCategory sc = fst (winnerLoop sc categoryScores_keys)"

subsection \<open>The classifier\<close>

text \<open>
  Each \<^verbatim>\<open>return\<close> of \<^verbatim>\<open>getWasteDetails\<close> is tagged with the place it returns from, so that
  statements about the path taken can be written down.
\<close>

datatype path =
  EmptyInput | SafetyOverride | Vote WasteCategoryKey
  | FallbackPaper | FallbackContainer | FallbackUnknown | Raised

definition isBrokenGlass :: "string \<Rightarrow> bool" where
  "isBrokenGlass lowerTopLabel =
     (includesStr lowerTopLabel ''broken glass'' \<or> includesStr lowerTopLabel ''shattered''
      \<or> includesStr lowerTopLabel ''broken cup'' \<or> includesStr lowerTopLabel ''cut glass'')"

definition paperNote :: string where
  "paperNote = ''Model was vague but identified a paper product. Assuming clean and dry paper.''"

definition containerNote :: string where
  "containerNote =
     ''Model was vague but identified a container type. Assuming standard rigid plastic.''"

text \<open>The \<^verbatim>\<open>switch (winningCategory)\<close>, with its \<^verbatim>\<open>default\<close> branch.\<close>

definition switchCategory ::
  "WasteCategoryKey option \<Rightarrow> string \<Rightarrow> string \<Rightarrow> path \<times> (js_failure + ClassificationResult)" where
  "switchCategory w topRawLabel lowerTopLabel =
     (case w of
        Some RigidPlastic \<Rightarrow> (Vote RigidPlastic, spreadProfile topRawLabel ''rigid_plastic_default'')
      | Some PlasticFilm \<Rightarrow> (Vote PlasticFilm, spreadProfile topRawLabel ''plastic_film_trash'')
      | Some Metal \<Rightarrow> (Vote Metal, spreadProfile topRawLabel ''metal_default'')
      | Some Cardboard \<Rightarrow> (Vote Cardboard, spreadProfile topRawLabel ''cardboard_default'')
      | Some Paper \<Rightarrow> (Vote Paper, spreadProfile topRawLabel ''paper_default'')
      | Some Glass \<Rightarrow> (Vote Glass, spreadProfile topRawLabel ''glass_default'')
      | Some FoodOrganics \<Rightarrow> (Vote FoodOrganics, spreadProfile topRawLabel ''organic_compost'')
      | None \<Rightarrow>
          if includesStr lowerTopLabel ''bottle'' \<or> includesStr lowerTopLabel ''can''
             \<or> includesStr lowerTopLabel ''book''
          then if includesStr lowerTopLabel ''book'' \<or> includesStr lowerTopLabel ''newspaper''
               then (FallbackPaper, spreadProfileNote topRawLabel ''paper_default'' paperNote)
               else (FallbackContainer,
                     spreadProfileNote topRawLabel ''rigid_plastic_default'' containerNote)
          else (FallbackUnknown, spreadProfile topRawLabel ''UNKNOWN_FALLBACK''))"

text \<open>
  The argument is \<^term>\<open>None\<close> for an absent (\<^verbatim>\<open>null\<close>/\<^verbatim>\<open>undefined\<close>) list, which the
  guard \<^verbatim>\<open>!predictions\<close> tests.
\<close>

definition getWasteDetails_path ::
  "HFPrediction list option \<Rightarrow> path \<times> (js_failure + ClassificationResult)" where
  "getWasteDetails_path arg =
     (case arg of
        None \<Rightarrow> (EmptyInput, spreadProfile ''N/A'' ''UNKNOWN_FALLBACK'')
      | Some predictions \<Rightarrow>
          if length predictions = 0
          then (EmptyInput, spreadProfile ''N/A'' ''UNKNOWN_FALLBACK'')
          else (case predictions of
                  [] \<Rightarrow> (Raised, Inl TypeError)
                | p0 # _ \<Rightarrow>
                    let topRawLabel = label p0;
                        sc = accumulate predictions;
                        w = winningCategory sc;
                        lowerTopLabel = toLowerCase topRawLabel
                    in if isBrokenGlass lowerTopLabel
                       then (SafetyOverride, spreadProfile topRawLabel ''broken_glass_special'')
                       else switchCategory w topRawLabel lowerTopLabel))"

definition getWasteDetails :: "HFPrediction list option \<Rightarrow> js_failure + ClassificationResult" where
  "getWasteDetails arg = snd (getWasteDetails_path arg)"

subsection \<open>The retry wrapper around \<^verbatim>\<open>fetch\<close>\<close>

text \<open>
  What \<^verbatim>\<open>details.error && details.error.includes(...)\<close> can meet in \<^verbatim>\<open>details.error\<close>:
  \<^item> \<open>NoError\<close>: no such field, or a falsy value other than the empty string;
  \<^item> \<open>ErrorString s\<close>: the string \<open>s\<close>;
  \<^item> \<open>ErrorArray xs\<close>: an array, whose elements that are strings are \<open>xs\<close>;
  \<^item> \<open>ErrorOther\<close>: any other truthy value (a number, \<^verbatim>\<open>true\<close>, an object), which has no
    \<^verbatim>\<open>includes\<close> method.
\<close>

datatype error_field = NoError | ErrorString string | ErrorArray "string list" | ErrorOther

text \<open>
  The value \<^verbatim>\<open>details\<close> of \<^verbatim>\<open>await response.json().catch(() => ({}))\<close>: the JSON value
  \<^verbatim>\<open>null\<close>, or any other value, of which the wrapper reads the \<^verbatim>\<open>error\<close> field and the
  text \<^verbatim>\<open>JSON.stringify(details)\<close>. A body that does not parse is \<open>Details NoError ''{}''\<close>.
\<close>

datatype json_details = NullDetails | Details error_field string

record Response =
  ok :: bool
  status :: nat
  body :: json_details

text \<open>
  One call of \<^verbatim>\<open>fetch\<close> resolves to a response or rejects; the rejection carries the
  message when the thrown value is an \<^verbatim>\<open>Error\<close>.
\<close>

datatype fetch_outcome = Resolved Response | Rejected "string option"

text \<open>
  The messages of the errors \<^verbatim>\<open>retryFetch\<close> throws:
  \<^item> \<open>Unauthorized401\<close>: \<^verbatim>\<open>401 Unauthorized: Please verify your Hugging Face API token is correct.\<close>
  \<^item> \<open>HttpError st d\<close>: \<^verbatim>\<open>HTTP error! Status: st. Details: d...\<close>
  \<^item> \<open>FetchError m\<close>: the message \<open>m\<close> of a rejected \<^verbatim>\<open>fetch\<close>
  \<^item> \<open>UnknownError\<close>: \<^verbatim>\<open>An unknown error occurred.\<close>
  \<^item> \<open>AllRetriesFailed\<close>: \<^verbatim>\<open>Fetch failed after all retries.\<close>
  \<^item> \<open>TypeErrorNullDetails\<close>: the engine's message for reading \<^verbatim>\<open>.error\<close> of \<^verbatim>\<open>null\<close>
  \<^item> \<open>TypeErrorNoIncludes\<close>: the engine's message for calling \<^verbatim>\<open>details.error.includes\<close>
    when it is not a function
\<close>

datatype message =
  Unauthorized401 | HttpError nat string | FetchError string | UnknownError | AllRetriesFailed
  | TypeErrorNullDetails | TypeErrorNoIncludes

text \<open>What the wrapper does that can be observed: calls of \<^verbatim>\<open>fetch\<close>, delays (in ms), log lines.\<close>

datatype event = Fetch | Delay nat | Warn nat nat | LogError nat message

datatype try_result = Returned Response | Continued | Thrown message

text \<open>
  \<^verbatim>\<open>details.error && details.error.includes("is currently loading")\<close>: its truth value, or
  the message of the \<^verbatim>\<open>TypeError\<close> it throws.
\<close>

definition isLoading :: "json_details \<Rightarrow> message + bool" where
  "isLoading details =
     (case details of
        NullDetails \<Rightarrow> Inl TypeErrorNullDetails
      | Details NoError text \<Rightarrow> Inr False
      | Details (ErrorString e) text \<Rightarrow> Inr (e \<noteq> [] \<and> includesStr e ''is currently loading'')
      | Details (ErrorArray xs) text \<Rightarrow> Inr (''is currently loading'' \<in> set xs)
      | Details ErrorOther text \<Rightarrow> Inl TypeErrorNoIncludes)"

text \<open>\<^verbatim>\<open>JSON.stringify(details).substring(0, 100)\<close>, reached only when \<open>details\<close> is not null.\<close>

definition detailsText :: "json_details \<Rightarrow> string" where
  "detailsText details = (case details of NullDetails \<Rightarrow> ''null'' | Details e text \<Rightarrow> take 100 text)"

text \<open>The \<^verbatim>\<open>try\<close> block of iteration \<open>i\<close>, after \<^verbatim>\<open>fetch\<close> has settled.\<close>

definition tryBlock :: "fetch_outcome \<Rightarrow> nat \<Rightarrow> nat \<Rightarrow> event list \<times> try_result" where
  "tryBlock out i retries =
     (case out of
        Rejected e \<Rightarrow>
          ([], Thrown (case e of Some m \<Rightarrow> FetchError m | None \<Rightarrow> UnknownError))
      | Resolved response \<Rightarrow>
          if \<not> ok response
          then if status response = 401 then ([], Thrown Unauthorized401)
               else (case isLoading (body response) of
                       Inl m \<Rightarrow> ([], Thrown m)
                     | Inr True \<Rightarrow> ([Warn (i + 1) retries, Delay 5000], Continued)
                     | Inr False \<Rightarrow>
                         ([], Thrown (HttpError (status response)
                                        (detailsText (body response)))))
          else ([], Returned response))"

text \<open>
  The \<^verbatim>\<open>for\<close> loop from iteration \<open>i\<close> on, with the events so far; the \<^verbatim>\<open>catch\<close> block is
  the \<open>Thrown\<close> case.
\<close>

function retryLoop ::
  "(nat \<Rightarrow> fetch_outcome) \<Rightarrow> nat \<Rightarrow> nat \<Rightarrow> event list \<Rightarrow> event list \<times> (message + Response)" where
  "retryLoop fetch retries i tr =
     (if i < retries
      then (case tryBlock (fetch i) i retries of
              (ev, Returned response) \<Rightarrow> (tr @ Fetch # ev, Inr response)
            | (ev, Continued) \<Rightarrow> retryLoop fetch retries (i + 1) (tr @ Fetch # ev)
            | (ev, Thrown m) \<Rightarrow>
                if i = retries - 1
                then (tr @ Fetch # ev @ [LogError (i + 1) m], Inl m)
                else retryLoop fetch retries (i + 1)
                       (tr @ Fetch # ev @ [LogError (i + 1) m, Delay (2 ^ i * 1000)]))
      else (tr, Inl AllRetriesFailed))"
  by pat_completeness auto
termination
  by (relation "measure (\<lambda>(fetch, retries, i, tr). retries - i)") auto

definition retryFetch :: "(nat \<Rightarrow> fetch_outcome) \<Rightarrow> nat \<Rightarrow> event list \<times> (message + Response)" where
  "retryFetch fetch retries = retryLoop fetch retries 0 []"

subsection \<open>The history list\<close>

text \<open>
  \<^verbatim>\<open>{ ...wasteDetails, imageSrc: base64Image, timestamp: Date.now() }\<close>, with the clock's
  reading as an argument.
\<close>

definition newHistoryItem :: "ClassificationResult \<Rightarrow> string \<Rightarrow> nat \<Rightarrow> HistoryItem" where
  "newHistoryItem wasteDetails base64Image now =
     \<lparr>type = type wasteDetails, recyclable = recyclable wasteDetails, note = note wasteDetails,
      special = special wasteDetails, compostable = compostable wasteDetails,
      rawLabel = rawLabel wasteDetails, imageSrc = base64Image, timestamp = now\<rparr>"

text \<open>The updater passed to \<^verbatim>\<open>setHistory\<close> after a classification.\<close>

definition addToHistory :: "HistoryItem \<Rightarrow> HistoryItem list \<Rightarrow> HistoryItem list" where
  "addToHistory item prevHistory = take 5 (item # prevHistory)"

text \<open>The two updates of the history state: a stored classification and \<^verbatim>\<open>setHistory([])\<close>.\<close>

datatype history_op = Store ClassificationResult string nat | Clear

fun setHistory :: "history_op \<Rightarrow> HistoryItem list \<Rightarrow> HistoryItem list" where
  "setHistory (Store wasteDetails base64Image now) history =
     addToHistory (newHistoryItem wasteDetails base64Image now) history"
| "setHistory Clear history = []"

text \<open>The history after a sequence of updates, from the initial \<^verbatim>\<open>useState([])\<close>.\<close>

definition historyAfter :: "history_op list \<Rightarrow> HistoryItem list" where
  "historyAfter ops = fold setHistory ops []"

subsection \<open>Reference definitions\<close>


text \<open>The items stored since the history was last cleared, oldest first, with no bound.\<close>

definition storedSinceClear :: "history_op list \<Rightarrow> HistoryItem list" where
  "storedSinceClear ops =
     fold (\<lambda>op items. case op of
                          Store wasteDetails base64Image now \<Rightarrow>
                            items @ [newHistoryItem wasteDetails base64Image now]
                        | Clear \<Rightarrow> [])
          ops []"

section \<open>Properties\<close>

subsection \<open>Auxiliary facts\<close>

lemma includesStr_sublist: "includesStr s k = sublist k s"
  by (induction s) (simp_all add: sublist_Cons_right)

lemma map_of_WASTE_MAP:
  "map_of WASTE_MAP ''rigid_plastic_default'' = Some rigid_plastic_default"
  "map_of WASTE_MAP ''metal_default'' = Some metal_default"
  "map_of WASTE_MAP ''glass_default'' = Some glass_default"
  "map_of WASTE_MAP ''cardboard_default'' = Some cardboard_default"
  "map_of WASTE_MAP ''paper_default'' = Some paper_default"
  "map_of WASTE_MAP ''plastic_film_trash'' = Some plastic_film_trash"
  "map_of WASTE_MAP ''broken_glass_special'' = Some broken_glass_special"
  "map_of WASTE_MAP ''organic_compost'' = Some organic_compost"
  "map_of WASTE_MAP ''UNKNOWN_FALLBACK'' = Some UNKNOWN_FALLBACK"
  by (simp_all add: WASTE_MAP_def)

lemma switchCategory_returns: "\<exists>v. snd (switchCategory w l ll) = Inr v"
  by (simp add: switchCategory_def spreadProfile_def spreadProfileNote_def map_of_WASTE_MAP
      split: option.split WasteCategoryKey.split)

lemma switchCategory_not_Raised: "fst (switchCategory w l ll) \<noteq> Raised"
  by (simp add: switchCategory_def split: option.split WasteCategoryKey.split)

lemma switchCategory_paper:
  "fst (switchCategory w l ll) = FallbackPaper \<Longrightarrow>
   snd (switchCategory w l ll) = Inr ((withRawLabel l paper_default)\<lparr>note := paperNote\<rparr>)"
  by (cases w) (auto simp: switchCategory_def spreadProfileNote_def map_of_WASTE_MAP
      split: WasteCategoryKey.splits if_splits)

lemma switchCategory_container:
  "fst (switchCategory w l ll) = FallbackContainer \<Longrightarrow>
   snd (switchCategory w l ll)
     = Inr ((withRawLabel l rigid_plastic_default)\<lparr>note := containerNote\<rparr>)"
  by (cases w) (auto simp: switchCategory_def spreadProfileNote_def map_of_WASTE_MAP
      split: WasteCategoryKey.splits if_splits)

lemma path_fallback_cases:
  assumes "fst (getWasteDetails_path arg) = FallbackPaper
           \<or> fst (getWasteDetails_path arg) = FallbackContainer"
  shows "\<exists>p0 rest. arg = Some (p0 # rest)
           \<and> getWasteDetails_path arg
               = switchCategory (winningCategory (accumulate (p0 # rest)))
                   (label p0) (toLowerCase (label p0))"
proof (cases arg)
  case None
  with assms show ?thesis by (simp add: getWasteDetails_path_def)
next
  case (Some predictions)
  show ?thesis
  proof (cases predictions)
    case Nil
    with Some assms show ?thesis by (simp add: getWasteDetails_path_def)
  next
    case (Cons p0 rest)
    with Some assms show ?thesis
      by (simp add: getWasteDetails_path_def Let_def split: if_splits)
  qed
qed

lemma accumulate_take: "accumulate (take 5 l) = accumulate l"
  by (simp add: accumulate_def)




lemma history_fold:
  "fold setHistory ops (take 5 (rev items))
     = take 5 (rev (fold (\<lambda>op items. case op of
                                          Store wasteDetails base64Image now \<Rightarrow>
                                            items @ [newHistoryItem wasteDetails base64Image now]
                                        | Clear \<Rightarrow> [])
                      ops items))"
proof (induction ops arbitrary: items)
  case Nil
  show ?case by simp
next
  case (Cons op ops)
  show ?case
  proof (cases op)
    case (Store w b n)
    have "setHistory op (take 5 (rev items)) = take 5 (rev (items @ [newHistoryItem w b n]))"
      using Store by (simp add: addToHistory_def)
    with Cons.IH [of "items @ [newHistoryItem w b n]"] Store show ?thesis
      by simp
  next
    case Clear
    with Cons.IH [of "[]"] show ?thesis by simp
  qed
qed

lemma historyAfter_snoc: "historyAfter (ops @ [op]) = setHistory op (historyAfter ops)"
  by (simp add: historyAfter_def)

lemma historyAfter_length: "length (historyAfter ops) \<le> 5"
proof (induction ops rule: rev_induct)
  case Nil
  show ?case by (simp add: historyAfter_def)
next
  case (snoc op ops)
  show ?case by (cases op) (simp_all add: historyAfter_snoc addToHistory_def)
qed

subsection \<open>The safety override\<close>

text \<open>
  Claim C1. For every non-empty prediction list whose first label, lowercased, contains
  \<open>broken glass\<close>, \<open>shattered\<close>, \<open>broken cup\<close> or \<open>cut glass\<close>, the classifier returns the
  \<open>broken_glass_special\<close> profile with \<open>rawLabel\<close> that first label, through the override
  branch, whatever the scores and the other predictions are.
\<close>

theorem safety_override:
  assumes "includesStr (toLowerCase (label p)) ''broken glass''
           \<or> includesStr (toLowerCase (label p)) ''shattered''
           \<or> includesStr (toLowerCase (label p)) ''broken cup''
           \<or> includesStr (toLowerCase (label p)) ''cut glass''"
  shows "getWasteDetails_path (Some (p # ps))
           = (SafetyOverride,
              Inr \<lparr>type = ''Miscellaneous Trash'', recyclable = False,
                    note = ''DANGER: Broken or shattered glass is NOT recyclable curbside due to safety. **Throw it in the trash** only after safely wrapping the pieces in thick newspaper or a small box.'',
                    special = Some True, compostable = None, rawLabel = label p\<rparr>)
         \<and> getWasteDetails (Some (p # ps))
           = Inr \<lparr>type = ''Miscellaneous Trash'', recyclable = False,
                    note = ''DANGER: Broken or shattered glass is NOT recyclable curbside due to safety. **Throw it in the trash** only after safely wrapping the pieces in thick newspaper or a small box.'',
                    special = Some True, compostable = None, rawLabel = label p\<rparr>"
  using assms
  by (simp add: getWasteDetails_def getWasteDetails_path_def Let_def isBrokenGlass_def
      spreadProfile_def map_of_WASTE_MAP withRawLabel_def broken_glass_special_def)

text \<open>
  Claim C1, at an input: the top label \<open>Shattered window pane\<close> with score \<open>0.9\<close>, followed by a
  plastic bottle. The vote on this input is won by Glass (next lemma), and the verdict is
  still the broken-glass one.
\<close>

theorem safety_override_witness:
  "includesStr (toLowerCase (label \<lparr>label = ''Shattered window pane'',
                                      score = double_of (9 / 10)\<rparr>)) ''shattered''
   \<and> getWasteDetails (Some [\<lparr>label = ''Shattered window pane'', score = double_of (9 / 10)\<rparr>,
                            \<lparr>label = ''plastic bottle'', score = double_of (1 / 2)\<rparr>])
       = Inr \<lparr>type = ''Miscellaneous Trash'', recyclable = False,
                    note = ''DANGER: Broken or shattered glass is NOT recyclable curbside due to safety. **Throw it in the trash** only after safely wrapping the pieces in thick newspaper or a small box.'',
                    special = Some True, compostable = None, rawLabel = ''Shattered window pane''\<rparr>"
proof -
  have h: "includesStr (toLowerCase ''Shattered window pane'') ''shattered''"
    by code_simp
  with safety_override [of "\<lparr>label = ''Shattered window pane'', score = double_of (9 / 10)\<rparr>"
      "[\<lparr>label = ''plastic bottle'', score = double_of (1 / 2)\<rparr>]"]
  show ?thesis by simp
qed

lemma override_beats_vote:
  "winningCategory (accumulate [\<lparr>label = ''Shattered window pane'', score = double_of (9 / 10)\<rparr>,
                                \<lparr>label = ''plastic bottle'', score = double_of (1 / 2)\<rparr>]) = Some Glass"
  by code_simp

subsection \<open>The empty input\<close>

text \<open>
  Claim C2. For the absent and for the empty prediction list the classifier returns the
  \<open>UNKNOWN_FALLBACK\<close> profile with \<open>rawLabel = N/A\<close>, from the first \<^verbatim>\<open>return\<close> of the
  function, before any scoring, override check or fallback heuristic.
\<close>

theorem empty_input:
  "getWasteDetails_path None
     = (EmptyInput,
        Inr \<lparr>type = ''Miscellaneous Trash'', recyclable = False,
                    note = ''Item not in the specific waste map. Defaulting to Miscellaneous Trash.'',
                    special = Some False, compostable = Some False, rawLabel = ''N/A''\<rparr>)
   \<and> getWasteDetails_path (Some []) = getWasteDetails_path None
   \<and> getWasteDetails None
     = Inr \<lparr>type = ''Miscellaneous Trash'', recyclable = False,
                    note = ''Item not in the specific waste map. Defaulting to Miscellaneous Trash.'',
                    special = Some False, compostable = Some False, rawLabel = ''N/A''\<rparr>
   \<and> getWasteDetails (Some []) = getWasteDetails None"
  by (simp add: getWasteDetails_def getWasteDetails_path_def spreadProfile_def map_of_WASTE_MAP
      withRawLabel_def UNKNOWN_FALLBACK_def)

subsection \<open>Totality\<close>

text \<open>
  Claim C3. The classifier returns a verdict on every input: the list may be absent, empty or
  of any length and contents. The read of the first element is never reached on an empty
  list, and every key looked up in \<open>WASTE_MAP\<close> is in the table. (Termination is by
  construction: every loop of the model is a \<^const>\<open>fold\<close> over a finite list.)
\<close>

theorem getWasteDetails_total:
  "(\<exists>v. getWasteDetails arg = Inr v) \<and> fst (getWasteDetails_path arg) \<noteq> Raised"
proof (cases arg)
  case None
  then show ?thesis
    by (simp add: getWasteDetails_def getWasteDetails_path_def spreadProfile_def map_of_WASTE_MAP)
next
  case (Some predictions)
  show ?thesis
  proof (cases predictions)
    case Nil
    with Some show ?thesis
      by (simp add: getWasteDetails_def getWasteDetails_path_def spreadProfile_def
          map_of_WASTE_MAP)
  next
    case (Cons p0 rest)
    with Some show ?thesis
      using switchCategory_returns [of "winningCategory (accumulate (p0 # rest))" "label p0"
          "toLowerCase (label p0)"]
        switchCategory_not_Raised [of "winningCategory (accumulate (p0 # rest))" "label p0"
          "toLowerCase (label p0)"]
      by (simp add: getWasteDetails_def getWasteDetails_path_def Let_def spreadProfile_def
          map_of_WASTE_MAP)
  qed
qed

subsection \<open>The threshold example\<close>

text \<open>
  Claim C4 as stated, refuted. The claim: on the single prediction \<open>plastic bottle\<close> with score
  \<open>0.2\<close> the RigidPlastic accumulator is exactly \<open>0.3\<close>, no category wins, and the verdict is
  \<open>rigid_plastic_default\<close> with the container note of the fallback. None of the three holds:
  the label contains two RigidPlastic keywords, \<open>bottle\<close> and \<open>plastic bottle\<close>, and each adds
  \<^verbatim>\<open>0.2 + 0.1\<close>. The accumulator is neither \<open>3 / 10\<close> nor the binary64 value of the
  literal \<^verbatim>\<open>0.3\<close>.
\<close>

theorem threshold_boundary_counterexample:
  "\<not> ((accumulate [\<lparr>label = ''plastic bottle'', score = double_of (1 / 5)\<rparr>] RigidPlastic
          = 3 / 10
        \<or> accumulate [\<lparr>label = ''plastic bottle'', score = double_of (1 / 5)\<rparr>] RigidPlastic
          = double_of (3 / 10))
      \<and> winningCategory (accumulate [\<lparr>label = ''plastic bottle'', score = double_of (1 / 5)\<rparr>])
          = None
      \<and> getWasteDetails_path (Some [\<lparr>label = ''plastic bottle'', score = double_of (1 / 5)\<rparr>])
          = (FallbackContainer,
             Inr \<lparr>type = ''Plastic (Rigid)'', recyclable = True,
                   note = ''Model was vague but identified a container type. Assuming standard rigid plastic.'',
                   special = None, compostable = None, rawLabel = ''plastic bottle''\<rparr>))"
  by code_simp

text \<open>
  Claim C4, amended. On the single prediction \<open>plastic bottle\<close> with score \<open>0.2\<close> the label
  matches the two RigidPlastic keywords \<open>bottle\<close> and \<open>plastic bottle\<close>, and each adds
  \<^verbatim>\<open>0.2 + 0.1\<close>, which is \<^verbatim>\<open>0.30000000000000004\<close>. The RigidPlastic accumulator after the
  voting step is the binary64 value \<open>1351079888211149 / 2^51\<close>, printed
  \<^verbatim>\<open>0.6000000000000001\<close>: above \<open>0.6\<close> and so strictly greater than \<open>0.3\<close>. RigidPlastic
  wins the vote, and the classifier returns the \<open>rigid_plastic_default\<close> profile with its own
  note, through the vote branch, with \<open>rawLabel = plastic bottle\<close>.
\<close>

theorem threshold_boundary_amended:
  "jsAdd (double_of (1 / 5)) (double_of (1 / 10)) = 5404319552844596 / 2 ^ 54
   \<and> accumulate [\<lparr>label = ''plastic bottle'', score = double_of (1 / 5)\<rparr>] RigidPlastic
       = 1351079888211149 / 2 ^ 51
   \<and> 3 / 5 < accumulate [\<lparr>label = ''plastic bottle'', score = double_of (1 / 5)\<rparr>] RigidPlastic
   \<and> winningCategory (accumulate [\<lparr>label = ''plastic bottle'', score = double_of (1 / 5)\<rparr>])
       = Some RigidPlastic
   \<and> getWasteDetails_path (Some [\<lparr>label = ''plastic bottle'', score = double_of (1 / 5)\<rparr>])
       = (Vote RigidPlastic,
          Inr \<lparr>type = ''Plastic (Rigid)'', recyclable = True,
                    note = ''Empty, rinse, and replace the cap. This is rigid plastic.'',
                    special = None, compostable = None, rawLabel = ''plastic bottle''\<rparr>)"
  by code_simp

text \<open>
  The rounding of the sums decides verdicts at the threshold: \<open>jug\<close> with score \<open>0.2\<close> matches
  one RigidPlastic keyword, its accumulator is \<^verbatim>\<open>0.30000000000000004\<close>, and RigidPlastic
  wins the vote.
\<close>

lemma rounding_decides_at_threshold:
  "accumulate [\<lparr>label = ''jug'', score = double_of (1 / 5)\<rparr>] RigidPlastic
     = 5404319552844596 / 2 ^ 54
   \<and> fst (getWasteDetails_path (Some [\<lparr>label = ''jug'', score = double_of (1 / 5)\<rparr>]))
       = Vote RigidPlastic"
  by code_simp

text \<open>
  \<open>3 / 10\<close> lies strictly between the binary64 value of the literal \<^verbatim>\<open>0.3\<close> and the next
  binary64 value, which are \<open>5404319552844595\<close> and \<open>5404319552844596\<close> times \<open>2^-54\<close>. So a
  binary64 value is greater than the one iff it is greater than the other.
\<close>

lemma threshold_between_doubles:
  "double_of (3 / 10) = 5404319552844595 * pow2 (- 54)
   \<and> double_of (3 / 10) < 3 / 10
   \<and> 3 / 10 < 5404319552844596 * pow2 (- 54)"
  by code_simp

subsection \<open>The paper branch of the fallback\<close>

text \<open>
  Claim C5, at the input that separates the code from the claim: the single prediction
  \<open>newspaper\<close> with score \<open>0.01\<close>. The top label contains \<open>newspaper\<close>, no category wins the
  vote (Paper has about \<open>0.22\<close>), the override does not fire, and the classifier returns
  \<open>UNKNOWN_FALLBACK\<close>, not \<open>paper_default\<close>: the test for \<open>newspaper\<close> sits inside the test for
  \<open>bottle\<close>, \<open>can\<close> or \<open>book\<close>.
\<close>

theorem newspaper_falls_to_unknown:
  "includesStr (toLowerCase ''newspaper'') ''newspaper''
   \<and> \<not> isBrokenGlass (toLowerCase ''newspaper'')
   \<and> winningCategory (accumulate [\<lparr>label = ''newspaper'', score = double_of (1 / 100)\<rparr>]) = None
   \<and> getWasteDetails_path (Some [\<lparr>label = ''newspaper'', score = double_of (1 / 100)\<rparr>])
       = (FallbackUnknown,
          Inr \<lparr>type = ''Miscellaneous Trash'', recyclable = False,
                    note = ''Item not in the specific waste map. Defaulting to Miscellaneous Trash.'',
                    special = Some False, compostable = Some False, rawLabel = ''newspaper''\<rparr>)"
  by code_simp

text \<open>
  The same for every input: with no winner and no override, a top label without \<open>bottle\<close>,
  \<open>can\<close> and \<open>book\<close> gets \<open>UNKNOWN_FALLBACK\<close>, whether or not it contains \<open>newspaper\<close>.
\<close>

lemma fallback_without_container_word:
  assumes "\<not> isBrokenGlass (toLowerCase (label p))"
    and "winningCategory (accumulate (p # ps)) = None"
    and "\<not> includesStr (toLowerCase (label p)) ''bottle''"
    and "\<not> includesStr (toLowerCase (label p)) ''can''"
    and "\<not> includesStr (toLowerCase (label p)) ''book''"
  shows "getWasteDetails_path (Some (p # ps))
           = (FallbackUnknown, Inr (withRawLabel (label p) UNKNOWN_FALLBACK))"
  using assms
  by (simp add: getWasteDetails_path_def Let_def switchCategory_def spreadProfile_def
      map_of_WASTE_MAP)

text \<open>What the paper branch does do: with no winner and no override, \<open>book\<close> gives paper.\<close>

lemma fallback_book_is_paper:
  assumes "\<not> isBrokenGlass (toLowerCase (label p))"
    and "winningCategory (accumulate (p # ps)) = None"
    and "includesStr (toLowerCase (label p)) ''book''"
  shows "getWasteDetails_path (Some (p # ps))
           = (FallbackPaper, Inr ((withRawLabel (label p) paper_default)\<lparr>note := paperNote\<rparr>))"
  using assms
  by (simp add: getWasteDetails_path_def Let_def switchCategory_def spreadProfileNote_def
      map_of_WASTE_MAP)

subsection \<open>HTTP 401 in the retry wrapper\<close>

text \<open>
  Claim C6, at the inputs that separate the code from the claim, with the default of three
  attempts. When every response is a 401, \<^verbatim>\<open>fetch\<close> is called three times with delays of 1 s
  and 2 s in between, and the error surfaces only after the third. When only the first
  response is a 401, it never surfaces: the wrapper waits 1 s, fetches again and returns the
  second response. The \<^verbatim>\<open>throw\<close> for 401 is inside the \<^verbatim>\<open>try\<close> whose \<^verbatim>\<open>catch\<close> retries.
\<close>

theorem unauthorized_is_retried:
  "retryFetch (\<lambda>i. Resolved \<lparr>ok = False, status = 401, body = Details NoError ''{}''\<rparr>) 3
     = ([Fetch, LogError 1 Unauthorized401, Delay 1000,
         Fetch, LogError 2 Unauthorized401, Delay 2000,
         Fetch, LogError 3 Unauthorized401], Inl Unauthorized401)
   \<and> retryFetch (\<lambda>i. if i = 0
                      then Resolved \<lparr>ok = False, status = 401, body = Details NoError ''{}''\<rparr>
                      else Resolved \<lparr>ok = True, status = 200, body = Details NoError ''[]''\<rparr>) 3
     = ([Fetch, LogError 1 Unauthorized401, Delay 1000, Fetch],
        Inr \<lparr>ok = True, status = 200, body = Details NoError ''[]''\<rparr>)"
  by code_simp

text \<open>
  In general: a 401 on an attempt that is not the last one is followed by the backoff delay
  and the next attempt; only on the last attempt does it end the loop.
\<close>

lemma unauthorized_retry_step:
  assumes "i + 1 < retries" and "fetch i = Resolved r" and "\<not> ok r" and "status r = 401"
  shows "retryLoop fetch retries i tr
           = retryLoop fetch retries (i + 1)
               (tr @ [Fetch, LogError (i + 1) Unauthorized401, Delay (2 ^ i * 1000)])"
  using assms by (subst retryLoop.simps) (auto simp add: tryBlock_def simp del: retryLoop.simps)

lemma unauthorized_last_attempt:
  assumes "i + 1 = retries" and "fetch i = Resolved r" and "\<not> ok r" and "status r = 401"
  shows "retryLoop fetch retries i tr
           = (tr @ [Fetch, LogError (i + 1) Unauthorized401], Inl Unauthorized401)"
  using assms by (subst retryLoop.simps) (auto simp add: tryBlock_def simp del: retryLoop.simps)

text \<open>
  Off the 401 path: an error response whose JSON body is \<^verbatim>\<open>null\<close> makes \<^verbatim>\<open>details.error\<close>
  throw, and the \<^verbatim>\<open>catch\<close> retries under that message.
\<close>

lemma null_body_is_retried:
  "retryFetch (\<lambda>i. Resolved \<lparr>ok = False, status = 503, body = NullDetails\<rparr>) 2
     = ([Fetch, LogError 1 TypeErrorNullDetails, Delay 1000,
         Fetch, LogError 2 TypeErrorNullDetails], Inl TypeErrorNullDetails)"
  by code_simp

subsection \<open>The winner of the vote\<close>



text \<open>
  The enumeration order of the winner loop is not the order of the \<^verbatim>\<open>WasteCategoryKey\<close> type
  or of \<^verbatim>\<open>KEYWORD_SCORES\<close>, where Metal comes before RigidPlastic: on \<open>can tub\<close> with score
  \<open>0.5\<close> the two tie at \<open>0.6\<close> and RigidPlastic wins.
\<close>

lemma tie_follows_accumulator_order:
  "accumulate [\<lparr>label = ''can tub'', score = double_of (1 / 2)\<rparr>] Metal = double_of (3 / 5)
   \<and> accumulate [\<lparr>label = ''can tub'', score = double_of (1 / 2)\<rparr>] RigidPlastic
       = double_of (3 / 5)
   \<and> winningCategory (accumulate [\<lparr>label = ''can tub'', score = double_of (1 / 2)\<rparr>]) = Some RigidPlastic"
  by code_simp

subsection \<open>Only the first five predictions count\<close>

text \<open>
  Claim C8. For every prediction list, the classifier's result, the branch it returns from
  and the accumulators are those of the first five elements of the list.
\<close>

theorem first_five_only:
  "getWasteDetails (Some l) = getWasteDetails (Some (take 5 l))
   \<and> getWasteDetails_path (Some l) = getWasteDetails_path (Some (take 5 l))
   \<and> accumulate l = accumulate (take 5 l)"
proof (cases l)
  case Nil
  then show ?thesis by (simp add: accumulate_def)
next
  case (Cons p0 rest)
  have t: "take 5 (p0 # rest) = p0 # take 4 rest" by simp
  have a: "accumulate (p0 # take 4 rest) = accumulate (p0 # rest)"
    using accumulate_take [of "p0 # rest"] by (simp only: t)
  have "getWasteDetails_path (Some (p0 # take 4 rest)) = getWasteDetails_path (Some (p0 # rest))"
    by (simp add: getWasteDetails_path_def a)
  with Cons a show ?thesis
    by (simp add: getWasteDetails_def)
qed

subsection \<open>The history list\<close>

text \<open>
  Claim C9. Starting from the empty history, after any sequence of stores and clears: the
  history has at most five entries; it is the five most recent items stored since the last
  clear, most recent first; a store puts the new item at the head and truncates to five, so
  when the history is full the entry that goes is the last, oldest one; a clear empties it.
\<close>

theorem history_bounded:
  "length (historyAfter ops) \<le> 5
   \<and> historyAfter ops = take 5 (rev (storedSinceClear ops))
   \<and> historyAfter (ops @ [Store w b n]) = take 5 (newHistoryItem w b n # historyAfter ops)
   \<and> (length (historyAfter ops) = 5 \<longrightarrow>
        historyAfter (ops @ [Store w b n]) = newHistoryItem w b n # butlast (historyAfter ops))
   \<and> historyAfter (ops @ [Clear]) = []"
proof -
  have a: "historyAfter ops = take 5 (rev (storedSinceClear ops))"
    using history_fold [of ops "[]"] by (simp add: historyAfter_def storedSinceClear_def)
  have b: "historyAfter (ops @ [Store w b n]) = take 5 (newHistoryItem w b n # historyAfter ops)"
    by (simp add: historyAfter_snoc addToHistory_def)
  have c: "historyAfter (ops @ [Store w b n]) = newHistoryItem w b n # butlast (historyAfter ops)"
    if "length (historyAfter ops) = 5"
  proof -
    have "take 4 (historyAfter ops) = butlast (historyAfter ops)"
      using that by (simp add: butlast_conv_take)
    with b show ?thesis by simp
  qed
  from a b c historyAfter_length [of ops] show ?thesis
    by (simp add: historyAfter_snoc)
qed

text \<open>
  Claim C9, at an input: five classifications stored at times 1 to 5 fill the history; the
  sixth, at time 6, leaves the entries of times 6, 5, 4, 3, 2.
\<close>

theorem history_bounded_witness:
  "length (historyAfter
      (map (\<lambda>n. Store (withRawLabel ''cup'' glass_default) ''data:'' n) [1, 2, 3, 4, 5])) = 5
   \<and> map timestamp (historyAfter
      (map (\<lambda>n. Store (withRawLabel ''cup'' glass_default) ''data:'' n) [1, 2, 3, 4, 5]
       @ [Store (withRawLabel ''cup'' glass_default) ''data:'' 6])) = [6, 5, 4, 3, 2]"
proof -
  let ?ops = "map (\<lambda>n. Store (withRawLabel ''cup'' glass_default) ''data:'' n) [1, 2, 3, 4, 5]"
  have h: "length (historyAfter ?ops) = 5"
    by code_simp
  have e: "map timestamp (newHistoryItem (withRawLabel ''cup'' glass_default) ''data:'' 6
             # butlast (historyAfter ?ops)) = [6, 5, 4, 3, 2]"
    by code_simp
  from history_bounded [of ?ops "withRawLabel ''cup'' glass_default" "''data:''" 6] h
  have "historyAfter (?ops @ [Store (withRawLabel ''cup'' glass_default) ''data:'' 6])
          = newHistoryItem (withRawLabel ''cup'' glass_default) ''data:'' 6
              # butlast (historyAfter ?ops)"
    by blast
  with h e show ?thesis by (simp only:)
qed

subsection \<open>What the note-overriding branches leave unchanged\<close>

text \<open>
  Claim C10. Whenever the classifier returns from the paper branch of the fallback, the
  verdict has the \<open>type\<close>, \<open>recyclable\<close> (true), \<open>special\<close> and \<open>compostable\<close> of \<open>paper_default\<close>
  and the paper note; whenever it returns from the container branch, it has those fields of
  \<open>rigid_plastic_default\<close> and the container note. Only \<open>note\<close> is replaced and \<open>rawLabel\<close>
  added.
\<close>

theorem fallback_frame:
  "(fst (getWasteDetails_path arg) = FallbackPaper \<longrightarrow>
      (\<exists>l. getWasteDetails arg
              = Inr \<lparr>type = type paper_default, recyclable = True, note = paperNote,
                     special = special paper_default, compostable = compostable paper_default,
                     rawLabel = l\<rparr>))
   \<and> (fst (getWasteDetails_path arg) = FallbackContainer \<longrightarrow>
      (\<exists>l. getWasteDetails arg
              = Inr \<lparr>type = type rigid_plastic_default, recyclable = True, note = containerNote,
                     special = special rigid_plastic_default,
                     compostable = compostable rigid_plastic_default, rawLabel = l\<rparr>))"
proof (intro conjI impI)
  assume p: "fst (getWasteDetails_path arg) = FallbackPaper"
  then obtain p0 rest where
    eq: "getWasteDetails_path arg
           = switchCategory (winningCategory (accumulate (p0 # rest)))
               (label p0) (toLowerCase (label p0))"
    using path_fallback_cases [of arg] by blast
  with p switchCategory_paper
  have "getWasteDetails arg = Inr ((withRawLabel (label p0) paper_default)\<lparr>note := paperNote\<rparr>)"
    by (simp add: getWasteDetails_def)
  then show "\<exists>l. getWasteDetails arg
              = Inr \<lparr>type = type paper_default, recyclable = True, note = paperNote,
                     special = special paper_default, compostable = compostable paper_default,
                     rawLabel = l\<rparr>"
    by (simp add: withRawLabel_def paper_default_def)
next
  assume p: "fst (getWasteDetails_path arg) = FallbackContainer"
  then obtain p0 rest where
    eq: "getWasteDetails_path arg
           = switchCategory (winningCategory (accumulate (p0 # rest)))
               (label p0) (toLowerCase (label p0))"
    using path_fallback_cases [of arg] by blast
  with p switchCategory_container
  have "getWasteDetails arg
          = Inr ((withRawLabel (label p0) rigid_plastic_default)\<lparr>note := containerNote\<rparr>)"
    by (simp add: getWasteDetails_def)
  then show "\<exists>l. getWasteDetails arg
              = Inr \<lparr>type = type rigid_plastic_default, recyclable = True, note = containerNote,
                     special = special rigid_plastic_default,
                     compostable = compostable rigid_plastic_default, rawLabel = l\<rparr>"
    by (simp add: withRawLabel_def rigid_plastic_default_def)
qed

text \<open>
  Claim C10, at two inputs: \<open>Comic book\<close> with score \<open>0.01\<close> returns from the paper branch,
  \<open>water bottle\<close> with score \<open>0.05\<close> from the container branch.
\<close>

theorem fallback_frame_witness:
  "fst (getWasteDetails_path (Some [\<lparr>label = ''Comic book'', score = double_of (1 / 100)\<rparr>])) = FallbackPaper
   \<and> (\<exists>l. getWasteDetails (Some [\<lparr>label = ''Comic book'', score = double_of (1 / 100)\<rparr>])
             = Inr \<lparr>type = type paper_default, recyclable = True, note = paperNote,
                    special = special paper_default, compostable = compostable paper_default,
                    rawLabel = l\<rparr>)
   \<and> fst (getWasteDetails_path (Some [\<lparr>label = ''water bottle'', score = double_of (1 / 20)\<rparr>]))
       = FallbackContainer
   \<and> (\<exists>l. getWasteDetails (Some [\<lparr>label = ''water bottle'', score = double_of (1 / 20)\<rparr>])
             = Inr \<lparr>type = type rigid_plastic_default, recyclable = True, note = containerNote,
                    special = special rigid_plastic_default,
                    compostable = compostable rigid_plastic_default, rawLabel = l\<rparr>)"
proof -
  have a: "fst (getWasteDetails_path (Some [\<lparr>label = ''Comic book'', score = double_of (1 / 100)\<rparr>]))
             = FallbackPaper"
    by code_simp
  have b: "fst (getWasteDetails_path (Some [\<lparr>label = ''water bottle'', score = double_of (1 / 20)\<rparr>]))
             = FallbackContainer"
    by code_simp
  from a b fallback_frame [of "Some [\<lparr>label = ''Comic book'', score = double_of (1 / 100)\<rparr>]"]
    fallback_frame [of "Some [\<lparr>label = ''water bottle'', score = double_of (1 / 20)\<rparr>]"]
  show ?thesis by blast
qed

end
